theory Spec2Isabelle
  imports Complex_Main
begin

section \<open>The ambient-backlight pipeline of backlight-integration.js\<close>

text \<open>
  The theory embeds two classes of \<^verbatim>\<open>src/backlight-integration.js\<close>:
  \<^verbatim>\<open>BacklightSystem\<close> (mode controller, edge sampler, aggregator, dispatch) and
  \<^verbatim>\<open>BacklightRecordingOptimizer\<close> (recording override). Objects are records, every
  method takes the object's state and returns the new one, a thrown exception is a
  value, and an asynchronous completion (a timer, a recorder event) is a function of
  its own that the environment applies when the event is delivered.
\<close>

subsection \<open>JavaScript values\<close>

text \<open>
  The renderer's option bag is an untyped object. A property holds any value; reading a
  property that was never set yields \<^verbatim>\<open>undefined\<close>, so an absent property and one
  holding \<^verbatim>\<open>undefined\<close> are both \<open>JUndefined\<close>. \<open>JObj\<close> is a reference to some object.
\<close>

datatype jsval =
    JUndefined
  | JNull
  | JBool bool
  | JNum rat
  | JNaN
  | JStr string
  | JObj nat

text \<open>The conversion to boolean that \<^verbatim>\<open>if (v)\<close> and \<^verbatim>\<open>!v\<close> apply.\<close>

fun truthy :: "jsval \<Rightarrow> bool" where
  "truthy JUndefined = False"
| "truthy JNull = False"
| "truthy (JBool b) = b"
| "truthy (JNum r) = (r \<noteq> 0)"
| "truthy JNaN = False"
| "truthy (JStr s) = (s \<noteq> [])"
| "truthy (JObj r) = True"

text \<open>
  Numbers are IEEE doubles in the source. A finite double is a rational; the model keeps
  numbers as \<^typ>\<open>rat\<close> and takes the rounding of the arithmetic as a parameter
  \<open>fl :: rat \<Rightarrow> rat\<close>, applied wherever the source rounds: at a decimal literal and at
  the result of a multiplication, division or addition. With \<open>fl\<close> the
  round-to-nearest of binary64 the functions compute what the source computes; the
  theorems hold for every \<open>fl\<close> unless they state a hypothesis on it.
\<close>

type_synonym rounding = "rat \<Rightarrow> rat"

subsection \<open>The renderer and its parameter bag\<close>

text \<open>
  \<^verbatim>\<open>visualizer.options\<close>: the four properties that \<^verbatim>\<open>BacklightSystem\<close> overrides and
  the three that \<^verbatim>\<open>BacklightRecordingOptimizer\<close> overrides (\<^verbatim>\<open>visualizationMode\<close> is
  common to both). The class of the visualizer itself is not part of the file; all that
  the two classes use of a visualizer is its \<^verbatim>\<open>options\<close> object, which a visualizer
  is taken to have. No visualizer at all (\<^verbatim>\<open>null\<close>, \<^verbatim>\<open>undefined\<close>) is \<open>None\<close>.
\<close>

record options =
  colorIntensity :: jsval
  edgeFalloff :: jsval
  transitionSpeed :: jsval
  visualizationMode :: jsval
  colorSaturation :: jsval
  edgeEmphasis :: jsval

record visualizer =
  options :: options

subsection \<open>BacklightSystem: state\<close>

text \<open>The object literal stored in \<^verbatim>\<open>this.previousSettings\<close>.\<close>

record previous_settings =
  ps_colorIntensity :: jsval
  ps_edgeFalloff :: jsval
  ps_transitionSpeed :: jsval
  ps_visualizationMode :: jsval

text \<open>An entry of \<^verbatim>\<open>this.supportedSystems\<close>.\<close>

record backlight_device =
  name :: string
  connected :: bool
  apiKey :: "string option"
  ipAddress :: "string option"

text \<open>
  A zone holds the three channel values read from the pixel buffer; a read outside the
  buffer yields \<^verbatim>\<open>undefined\<close>, which is \<open>None\<close>.
\<close>

type_synonym channel = "nat option"
type_synonym zone = "channel \<times> channel \<times> channel"

record edge_zones =
  top :: "zone list"
  right :: "zone list"
  bottom :: "zone list"
  left :: "zone list"

text \<open>
  The fields of a \<^verbatim>\<open>BacklightSystem\<close>. \<^verbatim>\<open>previousSettings\<close> and
  \<^verbatim>\<open>previousVisualizationMode\<close> are not assigned by the constructor: they start
  \<^verbatim>\<open>undefined\<close> (\<open>None\<close>, \<open>JUndefined\<close>). \<open>pendingScans\<close> counts the timers started by
  \<^verbatim>\<open>scanForBacklightSystems\<close> that have not fired yet.
\<close>

record backlight_system =
  visualizer :: "visualizer option"
  isEnabled :: bool
  backlightMode :: string
  bl_edgeEmphasis :: rat
  bl_colorSaturation :: rat
  smoothingFactor :: rat
  bl_transitionSpeed :: string
  supportedSystems :: "backlight_device list"
  edgeZones :: edge_zones
  previousSettings :: "previous_settings option"
  previousVisualizationMode :: jsval
  pendingScans :: nat

subsection \<open>BacklightSystem: construction\<close>

definition initializeEdgeZones :: "backlight_system \<Rightarrow> backlight_system" where
  "initializeEdgeZones s =
     (let topBottomCount = 16; leftRightCount = 9 in
      s\<lparr>edgeZones :=
          \<lparr>top = replicate topBottomCount (Some 0, Some 0, Some 0),
           right = replicate leftRightCount (Some 0, Some 0, Some 0),
           bottom = replicate topBottomCount (Some 0, Some 0, Some 0),
           left = replicate leftRightCount (Some 0, Some 0, Some 0)\<rparr>\<rparr>)"

definition BacklightSystem :: "rounding \<Rightarrow> visualizer option \<Rightarrow> backlight_system" where
  "BacklightSystem fl vis =
     initializeEdgeZones
       \<lparr>visualizer = vis,
        isEnabled = False,
        backlightMode = ''adaptive'',
        bl_edgeEmphasis = fl (7 / 10),
        bl_colorSaturation = fl (12 / 10),
        smoothingFactor = fl (3 / 10),
        bl_transitionSpeed = ''medium'',
        supportedSystems =
          [\<lparr>name = ''Govee'', connected = False, apiKey = Some [], ipAddress = None\<rparr>,
           \<lparr>name = ''Philips Hue'', connected = False, apiKey = Some [], ipAddress = None\<rparr>,
           \<lparr>name = ''WLED'', connected = False, apiKey = None, ipAddress = Some []\<rparr>,
           \<lparr>name = ''Hyperion'', connected = False, apiKey = None, ipAddress = Some []\<rparr>],
        edgeZones = \<lparr>top = [], right = [], bottom = [], left = []\<rparr>,
        previousSettings = None,
        previousVisualizationMode = JUndefined,
        pendingScans = 0\<rparr>"

subsection \<open>BacklightSystem: snapshot and restore\<close>

definition enableEdgeEmphasisMode :: "backlight_system \<Rightarrow> backlight_system" where
  "enableEdgeEmphasisMode s =
     (case visualizer s of
        None \<Rightarrow> s
      | Some v \<Rightarrow>
          s\<lparr>previousVisualizationMode := visualizationMode (options v),
            visualizer := Some (v\<lparr>options := (options v)\<lparr>visualizationMode := JStr ''backlight''\<rparr>\<rparr>)\<rparr>)"

definition applyOptimizedSettings :: "backlight_system \<Rightarrow> backlight_system" where
  "applyOptimizedSettings s =
     (case visualizer s of
        None \<Rightarrow> s
      | Some v \<Rightarrow>
          (let s1 = s\<lparr>previousSettings := Some
                       \<lparr>ps_colorIntensity = colorIntensity (options v),
                        ps_edgeFalloff = edgeFalloff (options v),
                        ps_transitionSpeed = transitionSpeed (options v),
                        ps_visualizationMode = visualizationMode (options v)\<rparr>\<rparr>;
               s2 = s1\<lparr>visualizer := Some (v\<lparr>options := (options v)
                       \<lparr>colorIntensity := JNum (bl_colorSaturation s),
                        edgeFalloff := JNum (bl_edgeEmphasis s),
                        transitionSpeed := JStr (bl_transitionSpeed s)\<rparr>\<rparr>)\<rparr>
           in if backlightMode s = ''adaptive'' then enableEdgeEmphasisMode s2 else s2))"

definition restoreStandardSettings :: "backlight_system \<Rightarrow> backlight_system" where
  "restoreStandardSettings s =
     (case visualizer s of
        None \<Rightarrow> s
      | Some v \<Rightarrow>
          (case previousSettings s of
             None \<Rightarrow> s
           | Some p \<Rightarrow>
               (let o1 = (options v)
                       \<lparr>colorIntensity := ps_colorIntensity p,
                        edgeFalloff := ps_edgeFalloff p,
                        transitionSpeed := ps_transitionSpeed p\<rparr>
                in if truthy (previousVisualizationMode s)
                   then s\<lparr>visualizer := Some (v\<lparr>options :=
                                o1\<lparr>visualizationMode := previousVisualizationMode s\<rparr>\<rparr>),
                          previousVisualizationMode := JNull\<rparr>
                   else s\<lparr>visualizer := Some (v\<lparr>options := o1\<rparr>)\<rparr>)))"

text \<open>\<^verbatim>\<open>toggle\<close> returns \<^verbatim>\<open>this.isEnabled\<close>; the model returns it beside the new state.\<close>

definition toggle :: "bool \<Rightarrow> backlight_system \<Rightarrow> bool \<times> backlight_system" where
  "toggle enable s =
     (let s1 = s\<lparr>isEnabled := enable\<rparr>;
          s2 = (if isEnabled s1 then applyOptimizedSettings s1 else restoreStandardSettings s1)
      in (isEnabled s2, s2))"

subsection \<open>BacklightSystem: modes and device records\<close>

text \<open>A descriptor as \<^verbatim>\<open>scanForBacklightSystems\<close> resolves it and the dialog passes it.\<close>

record system_descriptor =
  sys_type :: string
  sys_id :: string
  sys_ipAddress :: string

text \<open>
  \<^verbatim>\<open>supportedSystems.find(s => s.name === system.type)\<close> followed by
  \<^verbatim>\<open>supportedSystem.connected = true\<close>: the first record of that name is marked. The
  three \<^verbatim>\<open>setup...Connection\<close> methods only write to the console.
\<close>

fun markConnected :: "string \<Rightarrow> backlight_device list \<Rightarrow> backlight_device list" where
  "markConnected t [] = []"
| "markConnected t (d # ds) =
     (if name d = t then d\<lparr>connected := True\<rparr> # ds else d # markConnected t ds)"

definition connectToSystem :: "system_descriptor \<Rightarrow> backlight_system \<Rightarrow> backlight_system" where
  "connectToSystem system s =
     s\<lparr>supportedSystems := markConnected (sys_type system) (supportedSystems s)\<rparr>"

text \<open>
  \<^verbatim>\<open>scanForBacklightSystems\<close> starts a one-second timer and returns a promise;
  \<^verbatim>\<open>attemptDirectConnection\<close> attaches the callback that connects every discovered
  system. The call itself only leaves the timer pending; \<open>scanTimerFired\<close> is what runs
  when the timer fires.
\<close>

definition scanForBacklightSystems :: "backlight_system \<Rightarrow> backlight_system" where
  "scanForBacklightSystems s = s\<lparr>pendingScans := Suc (pendingScans s)\<rparr>"

definition attemptDirectConnection :: "backlight_system \<Rightarrow> backlight_system" where
  "attemptDirectConnection s = scanForBacklightSystems s"

definition discovered :: "system_descriptor list" where
  "discovered = [\<lparr>sys_type = ''Govee'', sys_id = ''H6199'', sys_ipAddress = ''192.168.1.100''\<rparr>]"

definition scanTimerFired :: "backlight_system \<Rightarrow> backlight_system" where
  "scanTimerFired s =
     (if pendingScans s = 0 then s
      else foldl (\<lambda>acc system. connectToSystem system acc)
             (s\<lparr>pendingScans := pendingScans s - 1\<rparr>) discovered)"

definition setMode :: "rounding \<Rightarrow> string \<Rightarrow> backlight_system \<Rightarrow> backlight_system" where
  "setMode fl mode s =
     (let s1 = s\<lparr>backlightMode := mode\<rparr> in
      if mode = ''adaptive'' then
        s1\<lparr>bl_edgeEmphasis := fl (7 / 10), bl_colorSaturation := fl (12 / 10),
           smoothingFactor := fl (3 / 10)\<rparr>
      else if mode = ''direct'' then attemptDirectConnection s1
      else if mode = ''ambilight'' then
        s1\<lparr>bl_edgeEmphasis := fl (9 / 10), bl_colorSaturation := fl (14 / 10),
           smoothingFactor := fl (2 / 10)\<rparr>
      else s1)"

subsection \<open>The canvas\<close>

text \<open>
  The 2D context is a browser object. Its bitmap is a function from pixel coordinates to
  the four bytes R, G, B, A; what is drawn onto it is kept as the list of drawing
  commands issued, oldest first. \<open>NoRecordingInProgress\<close> stands for the
  \<^verbatim>\<open>Error('No recording in progress')\<close> of \<^verbatim>\<open>stopRecording\<close>.
\<close>

datatype js_error = IndexSizeError | TypeError | SyntaxError | NoRecordingInProgress

datatype css_color = Transparent | Rgba jsval jsval jsval rat

record gradient =
  x0 :: rat
  y0 :: rat
  x1 :: rat
  y1 :: rat
  colorStops :: "(rat \<times> css_color) list"

datatype draw_command = FillRect gradient rat rat rat rat

record canvas_context =
  canvas_width :: nat
  canvas_height :: nat
  pixel :: "nat \<Rightarrow> nat \<Rightarrow> nat \<times> nat \<times> nat \<times> nat"
  drawn :: "draw_command list"

definition rgba :: "canvas_context \<Rightarrow> nat \<Rightarrow> nat \<Rightarrow> nat list" where
  "rgba ctx x y =
     (if x < canvas_width ctx \<and> y < canvas_height ctx
      then (case pixel ctx x y of (r, g, b, a) \<Rightarrow> [r, g, b, a])
      else [0, 0, 0, 0])"

text \<open>
  \<^verbatim>\<open>ctx.getImageData(0, 0, sw, sh)\<close> as the HTML standard defines it for a canvas the
  page may read: a zero width or height throws \<^verbatim>\<open>IndexSizeError\<close>; otherwise the
  result's \<^verbatim>\<open>data\<close> holds the \<open>sw * sh\<close> pixels row by row, four bytes each,
  transparent black outside the canvas.
\<close>

definition getImageData :: "canvas_context \<Rightarrow> nat \<Rightarrow> nat \<Rightarrow> js_error + nat list" where
  "getImageData ctx sw sh =
     (if sw = 0 \<or> sh = 0 then Inl IndexSizeError
      else Inr (concat (map (\<lambda>y. concat (map (\<lambda>x. rgba ctx x y) [0..<sw])) [0..<sh])))"

text \<open>\<^verbatim>\<open>data[i]\<close> on the typed array: \<^verbatim>\<open>undefined\<close> outside the buffer.\<close>

definition readData :: "nat list \<Rightarrow> int \<Rightarrow> channel" where
  "readData d i = (if 0 \<le> i \<and> nat i < length d then Some (d ! nat i) else None)"

text \<open>
  A method that can throw after it may have written to the object returns the state it
  leaves behind in both cases.
\<close>

datatype 'a outcome = Returned 'a | Threw js_error 'a

text \<open>The state that a call leaves behind, whether it returned or threw.\<close>

fun leftBehind :: "'a outcome \<Rightarrow> 'a" where
  "leftBehind (Returned x) = x"
| "leftBehind (Threw e x) = x"

subsection \<open>BacklightSystem: edge sampling\<close>

text \<open>
  The four \<^verbatim>\<open>pixelIndex\<close> expressions of \<^verbatim>\<open>sampleEdgeColors\<close>, for zone \<open>i\<close> of an
  edge of \<open>n\<close> zones. \<^verbatim>\<open>height - 3\<close> and \<^verbatim>\<open>width - 3\<close> go negative on small frames,
  so indices are integers.
\<close>

definition topIndex :: "rounding \<Rightarrow> nat \<Rightarrow> nat \<Rightarrow> nat \<Rightarrow> nat \<Rightarrow> int" where
  "topIndex fl width height n i =
     (let x = \<lfloor>fl (fl (of_nat i / of_nat n) * of_nat width)\<rfloor>
      in (x + 2 * int width) * 4)"

definition bottomIndex :: "rounding \<Rightarrow> nat \<Rightarrow> nat \<Rightarrow> nat \<Rightarrow> nat \<Rightarrow> int" where
  "bottomIndex fl width height n i =
     (let x = \<lfloor>fl (fl (of_nat i / of_nat n) * of_nat width)\<rfloor>
      in (x + (int height - 3) * int width) * 4)"

definition leftIndex :: "rounding \<Rightarrow> nat \<Rightarrow> nat \<Rightarrow> nat \<Rightarrow> nat \<Rightarrow> int" where
  "leftIndex fl width height n i =
     (let y = \<lfloor>fl (fl (of_nat i / of_nat n) * of_nat height)\<rfloor>
      in (2 + y * int width) * 4)"

definition rightIndex :: "rounding \<Rightarrow> nat \<Rightarrow> nat \<Rightarrow> nat \<Rightarrow> nat \<Rightarrow> int" where
  "rightIndex fl width height n i =
     (let y = \<lfloor>fl (fl (of_nat i / of_nat n) * of_nat height)\<rfloor>
      in (int width - 3 + y * int width) * 4)"

text \<open>
  One \<^verbatim>\<open>for (let i = 0; i < zones.length; i++)\<close> loop, from counter \<open>i\<close> on. The bound
  is read from the array at every test, as in the source; \<open>pixelIndex\<close> is one of the four
  functions above.
\<close>

function sampleLoop :: "(nat \<Rightarrow> nat \<Rightarrow> int) \<Rightarrow> nat list \<Rightarrow> nat \<Rightarrow> zone list \<Rightarrow> zone list" where
  "sampleLoop pixelIndex d i zones =
     (if i < length zones then
        (let p = pixelIndex (length zones) i
         in sampleLoop pixelIndex d (Suc i)
              (zones[i := (readData d p, readData d (p + 1), readData d (p + 2))]))
      else zones)"
  by pat_completeness auto
termination
  by (relation "measure (\<lambda>(pixelIndex, d, i, zones). length zones - i)") auto

declare sampleLoop.simps [simp del]

definition sampleEdgeColors ::
  "rounding \<Rightarrow> canvas_context \<Rightarrow> nat \<Rightarrow> nat \<Rightarrow> backlight_system \<Rightarrow> backlight_system outcome" where
  "sampleEdgeColors fl ctx width height s =
     (case getImageData ctx width height of
        Inl e \<Rightarrow> Threw e s
      | Inr d \<Rightarrow>
          (let z = edgeZones s;
               z1 = z\<lparr>top := sampleLoop (topIndex fl width height) d 0 (top z)\<rparr>;
               z2 = z1\<lparr>bottom := sampleLoop (bottomIndex fl width height) d 0 (bottom z1)\<rparr>;
               z3 = z2\<lparr>left := sampleLoop (leftIndex fl width height) d 0 (left z2)\<rparr>;
               z4 = z3\<lparr>right := sampleLoop (rightIndex fl width height) d 0 (right z3)\<rparr>
           in Returned (s\<lparr>edgeZones := z4\<rparr>)))"

subsection \<open>BacklightSystem: colour aggregation\<close>

text \<open>
  \<^verbatim>\<open>total += color[k]\<close>: a number plus \<^verbatim>\<open>undefined\<close> is \<^verbatim>\<open>NaN\<close>, and \<^verbatim>\<open>NaN\<close>
  stays \<^verbatim>\<open>NaN\<close>.
\<close>

fun addChannel :: "rounding \<Rightarrow> jsval \<Rightarrow> channel \<Rightarrow> jsval" where
  "addChannel fl (JNum t) (Some c) = JNum (fl (t + of_nat c))"
| "addChannel fl t c = JNaN"

text \<open>The \<^verbatim>\<open>forEach\<close> over the colour array, with the three running totals.\<close>

fun sumColors :: "rounding \<Rightarrow> zone list \<Rightarrow> jsval \<times> jsval \<times> jsval \<Rightarrow> jsval \<times> jsval \<times> jsval" where
  "sumColors fl [] totals = totals"
| "sumColors fl ((r, g, b) # colors) (totalR, totalG, totalB) =
     sumColors fl colors (addChannel fl totalR r, addChannel fl totalG g, addChannel fl totalB b)"

text \<open>
  \<^verbatim>\<open>Math.floor(total / colorArray.length)\<close>. The length is zero only for the empty
  array, whose totals are zero, and \<^verbatim>\<open>0 / 0\<close> is \<^verbatim>\<open>NaN\<close>.
\<close>

fun averageChannel :: "rounding \<Rightarrow> jsval \<Rightarrow> nat \<Rightarrow> jsval" where
  "averageChannel fl (JNum t) n =
     (if n = 0 then JNaN else JNum (of_int \<lfloor>fl (t / of_nat n)\<rfloor>))"
| "averageChannel fl t n = JNaN"

text \<open>\<^verbatim>\<open>Math.min(255, Math.floor(avg * this.colorSaturation))\<close>.\<close>

fun saturateChannel :: "rounding \<Rightarrow> rat \<Rightarrow> jsval \<Rightarrow> jsval" where
  "saturateChannel fl sat (JNum a) = JNum (min 255 (of_int \<lfloor>fl (a * sat)\<rfloor>))"
| "saturateChannel fl sat a = JNaN"

text \<open>
  \<^verbatim>\<open>getAverageColorString\<close> returns the text \<^verbatim>\<open>rgba(R, G, B, alpha)\<close>; the model
  returns the four interpolated values as \<open>Rgba R G B alpha\<close>.
\<close>

definition getAverageColorString ::
  "rounding \<Rightarrow> zone list \<Rightarrow> rat \<Rightarrow> backlight_system \<Rightarrow> css_color" where
  "getAverageColorString fl colorArray alpha s =
     (case sumColors fl colorArray (JNum 0, JNum 0, JNum 0) of
        (totalR, totalG, totalB) \<Rightarrow>
          (let avgR = averageChannel fl totalR (length colorArray);
               avgG = averageChannel fl totalG (length colorArray);
               avgB = averageChannel fl totalB (length colorArray);
               satR = saturateChannel fl (bl_colorSaturation s) avgR;
               satG = saturateChannel fl (bl_colorSaturation s) avgG;
               satB = saturateChannel fl (bl_colorSaturation s) avgB
           in Rgba satR satG satB alpha))"

subsection \<open>BacklightSystem: dispatch to connected systems\<close>

text \<open>The object that \<^verbatim>\<open>formatDataForGovee\<close> builds.\<close>

record govee_data =
  device :: string
  model :: string
  cmd_name :: string
  value_r :: channel
  value_g :: channel
  value_b :: channel

text \<open>
  \<^verbatim>\<open>this.edgeZones.top[Math.floor(this.edgeZones.top.length / 2)][k]\<close>: on an empty
  array the element is \<^verbatim>\<open>undefined\<close> and indexing it throws \<^verbatim>\<open>TypeError\<close>.
\<close>

definition formatDataForGovee :: "backlight_system \<Rightarrow> js_error + govee_data" where
  "formatDataForGovee s =
     (let zones = top (edgeZones s); k = length zones div 2 in
      if k < length zones then
        (case zones ! k of (r, g, b) \<Rightarrow>
           Inr \<lparr>device = ''H6199'', model = ''H6199'', cmd_name = ''color'',
                value_r = r, value_g = g, value_b = b\<rparr>)
      else Inl TypeError)"

text \<open>
  What one \<^verbatim>\<open>sendTo...\<close> call does. The request to the vendor is commented out in
  \<^verbatim>\<open>sendToGovee\<close>, so its effect is the payload it builds; the other two only write to
  the console.
\<close>

datatype dispatch = GoveePayload govee_data | PhilipsHueLogged | WLEDLogged

definition sendToGovee :: "backlight_device \<Rightarrow> backlight_system \<Rightarrow> js_error + dispatch" where
  "sendToGovee system s =
     (case formatDataForGovee s of Inl e \<Rightarrow> Inl e | Inr goveeData \<Rightarrow> Inr (GoveePayload goveeData))"

definition sendToPhilipsHue :: "backlight_device \<Rightarrow> backlight_system \<Rightarrow> dispatch" where
  "sendToPhilipsHue system s = PhilipsHueLogged"

definition sendToWLED :: "backlight_device \<Rightarrow> backlight_system \<Rightarrow> dispatch" where
  "sendToWLED system s = WLEDLogged"

text \<open>The \<^verbatim>\<open>forEach\<close> over the connected systems; an exception ends it.\<close>

fun sendEach :: "backlight_device list \<Rightarrow> backlight_system \<Rightarrow> js_error + dispatch list" where
  "sendEach [] s = Inr []"
| "sendEach (system # systems) s =
     (if name system = ''Govee'' then
        (case sendToGovee system s of
           Inl e \<Rightarrow> Inl e
         | Inr p \<Rightarrow> (case sendEach systems s of Inl e \<Rightarrow> Inl e | Inr ps \<Rightarrow> Inr (p # ps)))
      else if name system = ''Philips Hue'' then
        (case sendEach systems s of
           Inl e \<Rightarrow> Inl e | Inr ps \<Rightarrow> Inr (sendToPhilipsHue system s # ps))
      else if name system = ''WLED'' then
        (case sendEach systems s of
           Inl e \<Rightarrow> Inl e | Inr ps \<Rightarrow> Inr (sendToWLED system s # ps))
      else sendEach systems s)"

definition sendColorDataToConnectedSystems :: "backlight_system \<Rightarrow> js_error + dispatch list" where
  "sendColorDataToConnectedSystems s =
     (let connectedSystems = filter connected (supportedSystems s)
      in sendEach connectedSystems s)"

subsection \<open>BacklightSystem: edge emphasis and the frame hook\<close>

text \<open>
  A colour text is one the canvas can parse when its three channels are numbers:
  \<^verbatim>\<open>rgba(12, 3, 4, 0.5)\<close> is a colour, \<^verbatim>\<open>rgba(NaN, NaN, NaN, 0.5)\<close> is not.
\<close>

fun parsesAsColor :: "css_color \<Rightarrow> bool" where
  "parsesAsColor Transparent = True"
| "parsesAsColor (Rgba (JNum r) (JNum g) (JNum b) alpha) = True"
| "parsesAsColor (Rgba r g b alpha) = False"

definition createLinearGradient :: "rat \<Rightarrow> rat \<Rightarrow> rat \<Rightarrow> rat \<Rightarrow> gradient" where
  "createLinearGradient gx0 gy0 gx1 gy1 =
     \<lparr>x0 = gx0, y0 = gy0, x1 = gx1, y1 = gy1, colorStops = []\<rparr>"

text \<open>
  \<^verbatim>\<open>gradient.addColorStop(offset, color)\<close> as the HTML standard defines it for the
  offsets 0 and 1 that the source passes: a text that is not a colour throws
  \<^verbatim>\<open>SyntaxError\<close>.
\<close>

definition addColorStop :: "gradient \<Rightarrow> rat \<Rightarrow> css_color \<Rightarrow> js_error + gradient" where
  "addColorStop g offset color =
     (if parsesAsColor color then Inr (g\<lparr>colorStops := colorStops g @ [(offset, color)]\<rparr>)
      else Inl SyntaxError)"

text \<open>
  One of the four blocks of \<^verbatim>\<open>applyEdgeEmphasis\<close>: the two colour stops are added to
  the gradient just created, the gradient becomes the fill style and the strip is
  filled. A throw leaves the context as it was at that point.
\<close>

definition glowStrip ::
  "gradient \<Rightarrow> rat \<times> css_color \<Rightarrow> rat \<times> css_color \<Rightarrow> rat \<Rightarrow> rat \<Rightarrow> rat \<Rightarrow> rat
     \<Rightarrow> canvas_context \<Rightarrow> canvas_context outcome" where
  "glowStrip g stop0 stop1 x y w h ctx =
     (case addColorStop g (fst stop0) (snd stop0) of
        Inl e \<Rightarrow> Threw e ctx
      | Inr g0 \<Rightarrow>
          (case addColorStop g0 (fst stop1) (snd stop1) of
             Inl e \<Rightarrow> Threw e ctx
           | Inr g1 \<Rightarrow> Returned (ctx\<lparr>drawn := drawn ctx @ [FillRect g1 x y w h]\<rparr>)))"

text \<open>
  The four gradient strips of \<^verbatim>\<open>applyEdgeEmphasis\<close>, top, bottom, left, right, each
  appended to the context's commands once it is filled. An edge whose aggregated
  colour is not a number (a zone read outside the buffer, on a frame smaller than the
  inset) makes its \<^verbatim>\<open>addColorStop\<close> throw, after the strips before it were drawn.
  How the canvas paints a gradient is not modelled.
\<close>

definition applyEdgeEmphasis ::
  "rounding \<Rightarrow> canvas_context \<Rightarrow> nat \<Rightarrow> nat \<Rightarrow> backlight_system \<Rightarrow> canvas_context outcome" where
  "applyEdgeEmphasis fl ctx width height s =
     (let w = of_nat width; h = of_nat height; half = fl (1 / 2);
          tenth = fl (1 / 10); nineTenths = fl (9 / 10)
      in
        case glowStrip (createLinearGradient 0 0 0 (fl (h * tenth)))
               (0, getAverageColorString fl (top (edgeZones s)) half s) (1, Transparent)
               0 0 w (fl (h * tenth)) ctx of
          Threw e ctx1 \<Rightarrow> Threw e ctx1
        | Returned ctx1 \<Rightarrow>
        (case glowStrip (createLinearGradient 0 (fl (h * nineTenths)) 0 h)
               (0, Transparent) (1, getAverageColorString fl (bottom (edgeZones s)) half s)
               0 (fl (h * nineTenths)) w (fl (h * tenth)) ctx1 of
          Threw e ctx2 \<Rightarrow> Threw e ctx2
        | Returned ctx2 \<Rightarrow>
        (case glowStrip (createLinearGradient 0 0 (fl (w * tenth)) 0)
               (0, getAverageColorString fl (left (edgeZones s)) half s) (1, Transparent)
               0 0 (fl (w * tenth)) h ctx2 of
          Threw e ctx3 \<Rightarrow> Threw e ctx3
        | Returned ctx3 \<Rightarrow>
            glowStrip (createLinearGradient (fl (w * nineTenths)) 0 w 0)
               (0, Transparent) (1, getAverageColorString fl (right (edgeZones s)) half s)
               (fl (w * nineTenths)) 0 (fl (w * tenth)) h ctx3)))"

text \<open>
  \<^verbatim>\<open>processFrame\<close> leaves behind the system, the context and the list of what was
  dispatched to the connected systems during the call.
\<close>

type_synonym frame_effect = "backlight_system \<times> canvas_context \<times> dispatch list"

definition processFrame ::
  "rounding \<Rightarrow> canvas_context \<Rightarrow> nat \<Rightarrow> nat \<Rightarrow> backlight_system \<Rightarrow> frame_effect outcome" where
  "processFrame fl ctx width height s =
     (if \<not> isEnabled s then Returned (s, ctx, [])
      else
        (case sampleEdgeColors fl ctx width height s of
           Threw e s1 \<Rightarrow> Threw e (s1, ctx, [])
         | Returned s1 \<Rightarrow>
             (case (if backlightMode s1 = ''direct''
                    then sendColorDataToConnectedSystems s1 else Inr []) of
                Inl e \<Rightarrow> Threw e (s1, ctx, [])
              | Inr sent \<Rightarrow>
                  (if backlightMode s1 = ''adaptive'' \<or> backlightMode s1 = ''ambilight''
                   then (case applyEdgeEmphasis fl ctx width height s1 of
                           Threw e ctx1 \<Rightarrow> Threw e (s1, ctx1, sent)
                         | Returned ctx1 \<Rightarrow> Returned (s1, ctx1, sent))
                   else Returned (s1, ctx, sent)))))"

section \<open>BacklightRecordingOptimizer\<close>

subsection \<open>State\<close>

text \<open>The object literal stored in \<^verbatim>\<open>this.originalSettings\<close>.\<close>

record original_settings =
  os_colorSaturation :: jsval
  os_visualizationMode :: jsval
  os_edgeEmphasis :: jsval

text \<open>
  The browser's \<^verbatim>\<open>MediaRecorder\<close>, as far as the class drives it: its stream, the two
  options it is created with, its state, whether \<^verbatim>\<open>onstop\<close> holds the handler that
  \<^verbatim>\<open>stopRecording\<close> installs, and whether the task that \<^verbatim>\<open>stop()\<close> queues (a last
  \<^verbatim>\<open>dataavailable\<close> event, then \<^verbatim>\<open>stop\<close>) is still to run.
\<close>

datatype track = CanvasTrack nat | AudioTrack nat

datatype recorder_state = Inactive | Recording | Paused

record media_recorder =
  stream :: "track list"
  mimeType :: string
  videoBitsPerSecond :: int
  state :: recorder_state
  onstopInstalled :: bool
  stopTaskQueued :: bool

text \<open>A blob: the sizes of its parts and its type.\<close>

record blob =
  parts :: "nat list"
  blob_type :: string

text \<open>
  The fields of a \<^verbatim>\<open>BacklightRecordingOptimizer\<close>, and two that are not in the
  source. \<open>disableCalls\<close> is incremented whenever \<^verbatim>\<open>disable()\<close> is entered, so that
  the number of calls can be stated. \<open>replaced\<close> holds, oldest first, the recorders
  that \<^verbatim>\<open>this.recorder\<close> referred to before \<^verbatim>\<open>startRecording\<close> assigned a new one:
  the assignment drops the reference, not the recorder, and a stop task that such a
  recorder has queued still runs the handlers installed on it.
\<close>

record recording_optimizer =
  ro_visualizer :: "visualizer option"
  ro_isEnabled :: bool
  originalSettings :: "original_settings option"
  recorder :: "media_recorder option"
  recordedChunks :: "nat list"
  disableCalls :: nat
  replaced :: "media_recorder list"

definition BacklightRecordingOptimizer :: "visualizer option \<Rightarrow> recording_optimizer" where
  "BacklightRecordingOptimizer vis =
     \<lparr>ro_visualizer = vis, ro_isEnabled = False, originalSettings = None,
      recorder = None, recordedChunks = [], disableCalls = 0, replaced = []\<rparr>"

subsection \<open>enable and disable\<close>

definition enable :: "rounding \<Rightarrow> recording_optimizer \<Rightarrow> bool \<times> recording_optimizer" where
  "enable fl s =
     (case ro_visualizer s of
        None \<Rightarrow> (False, s)
      | Some v \<Rightarrow>
          (True,
           s\<lparr>originalSettings := Some
                \<lparr>os_colorSaturation = colorSaturation (options v),
                 os_visualizationMode = visualizationMode (options v),
                 os_edgeEmphasis = edgeEmphasis (options v)\<rparr>,
             ro_visualizer := Some (v\<lparr>options := (options v)
                \<lparr>colorSaturation := JNum (fl (13 / 10)),
                 visualizationMode := JStr ''backlight'',
                 edgeEmphasis := JNum (fl (9 / 10))\<rparr>\<rparr>),
             ro_isEnabled := True\<rparr>))"

definition disable :: "recording_optimizer \<Rightarrow> bool \<times> recording_optimizer" where
  "disable s0 =
     (let s = s0\<lparr>disableCalls := Suc (disableCalls s0)\<rparr> in
      case ro_visualizer s of
        None \<Rightarrow> (False, s)
      | Some v \<Rightarrow>
          (case originalSettings s of
             None \<Rightarrow> (False, s)
           | Some orig \<Rightarrow>
               (True,
                s\<lparr>ro_visualizer := Some (v\<lparr>options := (options v)
                     \<lparr>colorSaturation := os_colorSaturation orig,
                      visualizationMode := os_visualizationMode orig,
                      edgeEmphasis := os_edgeEmphasis orig\<rparr>\<rparr>),
                  ro_isEnabled := False\<rparr>)))"

subsection \<open>The recording session\<close>

text \<open>
  The arguments of \<^verbatim>\<open>startRecording\<close>: a canvas element or nothing, and an audio
  context or nothing, whose \<^verbatim>\<open>destination.stream\<close> is absent or carries audio tracks.
\<close>

datatype html_canvas = HtmlCanvas

record audio_context =
  destination_stream :: "track list option"

definition captureStream :: "html_canvas \<Rightarrow> nat \<Rightarrow> track list" where
  "captureStream canvas frameRate = [CanvasTrack frameRate]"

text \<open>
  \<^verbatim>\<open>new MediaRecorder(stream, options)\<close> and \<^verbatim>\<open>recorder.start()\<close> on a platform that
  supports the requested type: the recorder is created inactive and starts recording.
\<close>

definition newMediaRecorder :: "track list \<Rightarrow> string \<Rightarrow> int \<Rightarrow> media_recorder" where
  "newMediaRecorder tracks mime bits =
     \<lparr>stream = tracks, mimeType = mime, videoBitsPerSecond = bits, state = Inactive,
      onstopInstalled = False, stopTaskQueued = False\<rparr>"

definition recorderStart :: "media_recorder \<Rightarrow> media_recorder" where
  "recorderStart r = r\<lparr>state := Recording\<rparr>"

definition startRecording ::
  "rounding \<Rightarrow> html_canvas option \<Rightarrow> audio_context option \<Rightarrow> recording_optimizer
     \<Rightarrow> bool \<times> recording_optimizer" where
  "startRecording fl canvas audioContext s =
     (case canvas of
        None \<Rightarrow> (False, s)
      | Some c \<Rightarrow>
          (let s1 = snd (enable fl s);
               stream0 = captureStream c 60;
               stream1 = (case audioContext of
                            None \<Rightarrow> stream0
                          | Some a \<Rightarrow> (case destination_stream a of
                                         None \<Rightarrow> stream0
                                       | Some audioTracks \<Rightarrow> stream0 @ audioTracks));
               s2 = s1\<lparr>replaced := (case recorder s1 of
                                       None \<Rightarrow> replaced s1
                                     | Some old \<Rightarrow> replaced s1 @ [old]),
                       recorder := Some (newMediaRecorder stream1 ''video/webm;codecs=vp9'' 8000000)\<rparr>;
               s3 = s2\<lparr>recordedChunks := []\<rparr>;
               s4 = s3\<lparr>recorder := map_option recorderStart (recorder s3)\<rparr>
           in (True, s4)))"

text \<open>
  \<^verbatim>\<open>recorder.stop()\<close>: a recorder that is recording or paused becomes inactive, and
  the task that fires \<^verbatim>\<open>dataavailable\<close> and \<^verbatim>\<open>stop\<close> is queued. On an inactive
  recorder the call queues nothing (the standard's current text makes it do nothing,
  earlier text made it throw); the statements below are about a recorder that is
  recording.
\<close>

definition recorderStop :: "media_recorder \<Rightarrow> media_recorder" where
  "recorderStop r =
     (if state r = Inactive then r else r\<lparr>state := Inactive, stopTaskQueued := True\<rparr>)"

datatype 'a promise = Pending | Resolved 'a | Rejected js_error

text \<open>
  The synchronous part of \<^verbatim>\<open>stopRecording\<close>: the promise it returns is rejected at once
  without a recorder, and is pending otherwise, with the handler installed and the
  recorder told to stop.
\<close>

definition stopRecording :: "recording_optimizer \<Rightarrow> blob promise \<times> recording_optimizer" where
  "stopRecording s =
     (case recorder s of
        None \<Rightarrow> (Rejected NoRecordingInProgress, s)
      | Some r \<Rightarrow>
          (Pending, s\<lparr>recorder := Some (recorderStop (r\<lparr>onstopInstalled := True\<rparr>))\<rparr>))"

text \<open>The \<^verbatim>\<open>ondataavailable\<close> handler that \<^verbatim>\<open>startRecording\<close> installs.\<close>

definition ondataavailable :: "nat \<Rightarrow> recording_optimizer \<Rightarrow> recording_optimizer" where
  "ondataavailable bytes s =
     (if bytes > 0 then s\<lparr>recordedChunks := recordedChunks s @ [bytes]\<rparr> else s)"

text \<open>The \<^verbatim>\<open>onstop\<close> handler that \<^verbatim>\<open>stopRecording\<close> installs; it resolves the promise.\<close>

definition onstop :: "recording_optimizer \<Rightarrow> blob promise \<times> recording_optimizer" where
  "onstop s =
     (let s1 = snd (disable s);
          b = \<lparr>parts = recordedChunks s1, blob_type = ''video/webm''\<rparr>
      in (Resolved b, s1))"

text \<open>
  The task that a recorder \<open>r\<close> queued by \<^verbatim>\<open>stop()\<close>, run by the event loop: the data
  gathered, of \<open>bytes\<close> bytes, is delivered to the \<^verbatim>\<open>ondataavailable\<close> handler, then
  the \<^verbatim>\<open>stop\<close> event to the \<^verbatim>\<open>onstop\<close> handler if \<^verbatim>\<open>stopRecording\<close> installed one
  on \<open>r\<close>. Both handlers act on the optimizer as it is when the task runs.
\<close>

definition stopTaskOf ::
  "nat \<Rightarrow> media_recorder \<Rightarrow> recording_optimizer \<Rightarrow> blob promise \<times> recording_optimizer" where
  "stopTaskOf bytes r s =
     (let s1 = ondataavailable bytes s
      in if onstopInstalled r then onstop s1 else (Pending, s1))"

text \<open>
  The task of the recorder that \<^verbatim>\<open>this.recorder\<close> refers to. Without a queued task,
  or without an installed handler, the promise stays pending.
\<close>

definition stopTaskRuns :: "nat \<Rightarrow> recording_optimizer \<Rightarrow> blob promise \<times> recording_optimizer" where
  "stopTaskRuns bytes s =
     (case recorder s of
        None \<Rightarrow> (Pending, s)
      | Some r \<Rightarrow>
          (if stopTaskQueued r
           then stopTaskOf bytes r (s\<lparr>recorder := Some (r\<lparr>stopTaskQueued := False\<rparr>)\<rparr>)
           else (Pending, s)))"

text \<open>
  The tasks that replaced recorders have queued, run in the order in which they were
  queued, which is the order of the list. \<open>sizes\<close> gives the bytes each of them
  delivers (nothing, once the list is used up). The promises they resolve are those
  of earlier \<^verbatim>\<open>stopRecording\<close> calls.
\<close>

fun replacedTasksRun ::
  "nat list \<Rightarrow> media_recorder list \<Rightarrow> recording_optimizer \<Rightarrow> recording_optimizer" where
  "replacedTasksRun sizes [] s = s"
| "replacedTasksRun sizes (r # rs) s =
     (if stopTaskQueued r
      then replacedTasksRun (tl sizes) rs
             (snd (stopTaskOf (case sizes of [] \<Rightarrow> 0 | b # bs \<Rightarrow> b) r s))
      else replacedTasksRun sizes rs s)"

definition earlierStopTasksRun :: "nat list \<Rightarrow> recording_optimizer \<Rightarrow> recording_optimizer" where
  "earlierStopTasksRun sizes s =
     (replacedTasksRun sizes (replaced s) s)
       \<lparr>replaced := map (\<lambda>r. r\<lparr>stopTaskQueued := False\<rparr>) (replaced s)\<rparr>"

text \<open>
  \<^verbatim>\<open>stopRecording()\<close> followed by the event loop running what is queued: first the
  tasks of replaced recorders, which were queued earlier, then the task that this call
  queued.
\<close>

definition stopRecordingSettled ::
  "nat list \<Rightarrow> nat \<Rightarrow> recording_optimizer \<Rightarrow> blob promise \<times> recording_optimizer" where
  "stopRecordingSettled earlier bytes s =
     (case stopRecording s of
        (Rejected e, s1) \<Rightarrow> (Rejected e, s1)
      | (Resolved b, s1) \<Rightarrow> (Resolved b, s1)
      | (Pending, s1) \<Rightarrow> stopTaskRuns bytes (earlierStopTasksRun earlier s1))"

section \<open>Concrete objects\<close>

text \<open>
  A renderer as the page creates it (\<^verbatim>\<open>visualizationMode: 'spectrum'\<close>), one whose bag
  has no \<^verbatim>\<open>visualizationMode\<close>, and the controllers over them. \<open>exact\<close> is the rounding
  that rounds nothing.
\<close>

definition exact :: rounding where
  "exact x = x"

definition spectrumOptions :: options where
  "spectrumOptions =
     \<lparr>colorIntensity = JNum 1, edgeFalloff = JNum (1 / 2), transitionSpeed = JStr ''fast'',
      visualizationMode = JStr ''spectrum'', colorSaturation = JNum 1,
      edgeEmphasis = JNum (1 / 2)\<rparr>"

definition spectrumVisualizer :: visualizer where
  "spectrumVisualizer = \<lparr>options = spectrumOptions\<rparr>"

definition modelessOptions :: options where
  "modelessOptions = spectrumOptions\<lparr>visualizationMode := JUndefined\<rparr>"

definition modelessVisualizer :: visualizer where
  "modelessVisualizer = \<lparr>options = modelessOptions\<rparr>"

definition freshSystem :: backlight_system where
  "freshSystem = BacklightSystem exact (Some spectrumVisualizer)"

definition modelessSystem :: backlight_system where
  "modelessSystem = BacklightSystem exact (Some modelessVisualizer)"

definition freshOptimizer :: recording_optimizer where
  "freshOptimizer = BacklightRecordingOptimizer (Some spectrumVisualizer)"

text \<open>The fresh controller after \<^verbatim>\<open>toggle(true)\<close>.\<close>

definition appliedSystem :: backlight_system where
  "appliedSystem = snd (toggle True freshSystem)"

text \<open>The renderer and the snapshot that this leaves in the controller.\<close>

definition backlitVisualizer :: visualizer where
  "backlitVisualizer =
     \<lparr>options = spectrumOptions
       \<lparr>colorIntensity := JNum (6 / 5), edgeFalloff := JNum (7 / 10),
        transitionSpeed := JStr ''medium'', visualizationMode := JStr ''backlight''\<rparr>\<rparr>"

definition spectrumSnapshot :: previous_settings where
  "spectrumSnapshot =
     \<lparr>ps_colorIntensity = JNum 1, ps_edgeFalloff = JNum (1 / 2),
      ps_transitionSpeed = JStr ''fast'', ps_visualizationMode = JStr ''spectrum''\<rparr>"

text \<open>
  The controller after \<^verbatim>\<open>toggle(true)\<close> in adaptive mode, \<^verbatim>\<open>setMode('ambilight')\<close>
  and a second \<^verbatim>\<open>toggle(true)\<close>, as two clicks on the dialog's Apply button with a
  change of mode in between produce it.
\<close>

definition reappliedSystem :: backlight_system where
  "reappliedSystem =
     snd (toggle True (setMode exact ''ambilight'' (snd (toggle True freshSystem))))"

text \<open>
  The controller enabled and switched to direct mode, after the scan timer has fired
  and connected the Govee record.
\<close>

definition directSystem :: backlight_system where
  "directSystem = scanTimerFired (setMode exact ''direct'' (snd (toggle True freshSystem)))"

text \<open>A 4 by 4 canvas, black but for one orange pixel at column 2 of row 2.\<close>

definition orangeCanvas :: canvas_context where
  "orangeCanvas =
     \<lparr>canvas_width = 4, canvas_height = 4,
      pixel = (\<lambda>x y. if x = 2 \<and> y = 2 then (200, 100, 50, 255) else (0, 0, 0, 255)),
      drawn = []\<rparr>"

text \<open>That controller after one \<^verbatim>\<open>processFrame\<close> on the canvas.\<close>

definition goveeSystem :: backlight_system where
  "goveeSystem = fst (leftBehind (processFrame exact orangeCanvas 4 4 directSystem))"

text \<open>A 4 by 4 canvas of opaque black.\<close>

definition blackCanvas :: canvas_context where
  "blackCanvas =
     \<lparr>canvas_width = 4, canvas_height = 4, pixel = (\<lambda>x y. (0, 0, 0, 255)), drawn = []\<rparr>"

text \<open>A 2 by 2 canvas of opaque black, smaller than the inset.\<close>

definition tinyCanvas :: canvas_context where
  "tinyCanvas =
     \<lparr>canvas_width = 2, canvas_height = 2, pixel = (\<lambda>x y. (0, 0, 0, 255)), drawn = []\<rparr>"

text \<open>An optimizer with a session running and one chunk of ten bytes recorded.\<close>

definition activeOptimizer :: recording_optimizer where
  "activeOptimizer =
     ondataavailable 10 (snd (startRecording exact (Some HtmlCanvas) None freshOptimizer))"

text \<open>
  The optimizer after one complete session, and the optimizer whose first
  \<^verbatim>\<open>stopRecording()\<close> has returned its promise while the recorder's task has not run.
\<close>

definition restedOptimizer :: recording_optimizer where
  "restedOptimizer =
     snd (stopRecordingSettled [] 10
            (snd (startRecording exact (Some HtmlCanvas) None freshOptimizer)))"

definition pendingOptimizer :: recording_optimizer where
  "pendingOptimizer =
     snd (stopRecording (snd (startRecording exact (Some HtmlCanvas) None freshOptimizer)))"

section \<open>Observations used in the statements\<close>

text \<open>
  Calls of \<^verbatim>\<open>startRecording\<close> and \<^verbatim>\<open>stopRecording\<close> alternate correctly when each
  session is over before the next begins: at a \<^verbatim>\<open>startRecording\<close> every recorder
  created so far is inactive and has no stop task left to run.
\<close>

definition settledRecorder :: "media_recorder \<Rightarrow> bool" where
  "settledRecorder r = (state r = Inactive \<and> \<not> stopTaskQueued r)"

definition noSessionInProgress :: "recording_optimizer \<Rightarrow> bool" where
  "noSessionInProgress s =
     (list_all settledRecorder (replaced s)
      \<and> (case recorder s of None \<Rightarrow> True | Some r \<Rightarrow> settledRecorder r))"

text \<open>The lengths of the four zone arrays, in the order top, right, bottom, left.\<close>

definition zoneLengths :: "backlight_system \<Rightarrow> nat \<times> nat \<times> nat \<times> nat" where
  "zoneLengths s =
     (length (top (edgeZones s)), length (right (edgeZones s)),
      length (bottom (edgeZones s)), length (left (edgeZones s)))"

text \<open>A zone whose three channels are bytes.\<close>

fun byteZone :: "zone \<Rightarrow> bool" where
  "byteZone (Some r, Some g, Some b) = (r \<le> 255 \<and> g \<le> 255 \<and> b \<le> 255)"
| "byteZone z = False"

text \<open>A channel of an aggregated colour that is a number between 0 and 255.\<close>

fun byteValued :: "jsval \<Rightarrow> bool" where
  "byteValued (JNum r) = (0 \<le> r \<and> r \<le> 255)"
| "byteValued v = False"

text \<open>What the dispatch loop yields for one connected record, given the Govee payload.\<close>

definition dispatchOf :: "govee_data \<Rightarrow> backlight_device \<Rightarrow> dispatch list" where
  "dispatchOf g system =
     (if name system = ''Govee'' then [GoveePayload g]
      else if name system = ''Philips Hue'' then [PhilipsHueLogged]
      else if name system = ''WLED'' then [WLEDLogged]
      else [])"

section \<open>Snapshot and restore in the mode controller\<close>

subsection \<open>Effect of applyOptimizedSettings and restoreStandardSettings\<close>

lemma visualizer_applyOptimizedSettings:
  "visualizer s = Some v \<Longrightarrow>
   visualizer (applyOptimizedSettings s) =
     Some (v\<lparr>options := (options v)
       \<lparr>colorIntensity := JNum (bl_colorSaturation s),
        edgeFalloff := JNum (bl_edgeEmphasis s),
        transitionSpeed := JStr (bl_transitionSpeed s),
        visualizationMode :=
          (if backlightMode s = ''adaptive'' then JStr ''backlight''
           else visualizationMode (options v))\<rparr>\<rparr>)"
  by (simp add: applyOptimizedSettings_def enableEdgeEmphasisMode_def Let_def)

lemma previousSettings_applyOptimizedSettings:
  "visualizer s = Some v \<Longrightarrow>
   previousSettings (applyOptimizedSettings s) =
     Some \<lparr>ps_colorIntensity = colorIntensity (options v),
           ps_edgeFalloff = edgeFalloff (options v),
           ps_transitionSpeed = transitionSpeed (options v),
           ps_visualizationMode = visualizationMode (options v)\<rparr>"
  by (simp add: applyOptimizedSettings_def enableEdgeEmphasisMode_def Let_def)

lemma previousVisualizationMode_applyOptimizedSettings:
  "visualizer s = Some v \<Longrightarrow>
   previousVisualizationMode (applyOptimizedSettings s) =
     (if backlightMode s = ''adaptive'' then visualizationMode (options v)
      else previousVisualizationMode s)"
  by (simp add: applyOptimizedSettings_def enableEdgeEmphasisMode_def Let_def)

lemma isEnabled_applyOptimizedSettings: "isEnabled (applyOptimizedSettings s) = isEnabled s"
  by (simp add: applyOptimizedSettings_def enableEdgeEmphasisMode_def Let_def split: option.splits)

lemma isEnabled_restoreStandardSettings: "isEnabled (restoreStandardSettings s) = isEnabled s"
  by (simp add: restoreStandardSettings_def Let_def split: option.splits)

lemma edgeZones_applyOptimizedSettings: "edgeZones (applyOptimizedSettings s) = edgeZones s"
  by (simp add: applyOptimizedSettings_def enableEdgeEmphasisMode_def Let_def split: option.splits)

lemma edgeZones_restoreStandardSettings: "edgeZones (restoreStandardSettings s) = edgeZones s"
  by (simp add: restoreStandardSettings_def Let_def split: option.splits)

text \<open>
  The round trip does hold from a controller that has no visualization mode on record,
  as long as the mode is not adaptive or the bag's \<^verbatim>\<open>visualizationMode\<close> is truthy.
\<close>

lemma roundtrip_when_mode_truthy:
  assumes "visualizer s = Some v"
    and "\<not> truthy (previousVisualizationMode s)"
    and "backlightMode s \<noteq> ''adaptive'' \<or> truthy (visualizationMode (options v))"
  shows "visualizer (restoreStandardSettings (applyOptimizedSettings s)) = Some v"
  using assms
  by (auto simp add: restoreStandardSettings_def visualizer_applyOptimizedSettings
      previousSettings_applyOptimizedSettings previousVisualizationMode_applyOptimizedSettings)

subsection \<open>Claim C2\<close>

text \<open>
  Claim C2: for every starting value of the parameter bag and every backlight mode,
  \<^verbatim>\<open>applyOptimizedSettings\<close> followed by \<^verbatim>\<open>restoreStandardSettings\<close> (in particular
  \<^verbatim>\<open>toggle(true)\<close> then \<^verbatim>\<open>toggle(false)\<close>) leaves the bag as it was. The code does
  not: \<^verbatim>\<open>restoreStandardSettings\<close> tests \<^verbatim>\<open>if (this.previousVisualizationMode)\<close> to
  find out whether the mode was changed, and a bag whose \<^verbatim>\<open>visualizationMode\<close> was
  unset (or the empty text) records a falsy previous mode. On a new controller, which
  is in adaptive mode, over such a bag the pair of calls leaves \<^verbatim>\<open>visualizationMode\<close>
  at \<^verbatim>\<open>'backlight'\<close>.
\<close>

theorem roundtrip_loses_unset_visualizationMode:
  "map_option options (visualizer modelessSystem) = Some modelessOptions
   \<and> visualizationMode modelessOptions = JUndefined
   \<and> map_option options (visualizer (restoreStandardSettings (applyOptimizedSettings modelessSystem)))
       = Some (modelessOptions\<lparr>visualizationMode := JStr ''backlight''\<rparr>)
   \<and> map_option options (visualizer (snd (toggle False (snd (toggle True modelessSystem)))))
       = Some (modelessOptions\<lparr>visualizationMode := JStr ''backlight''\<rparr>)"
  by code_simp

subsection \<open>Claim C3\<close>

text \<open>
  Claim C3, as stated: \<^verbatim>\<open>applyOptimizedSettings\<close> called while a snapshot is
  outstanding does not replace it, so that what is restored is the snapshot taken when
  the controller left its standard state. It fails: two \<^verbatim>\<open>toggle(true)\<close> in a row
  replace the snapshot of the renderer's own values by a snapshot of the optimized
  ones, and \<^verbatim>\<open>toggle(false)\<close> then does not bring the renderer's values back.
\<close>

theorem second_apply_replaces_snapshot:
  "previousSettings (applyOptimizedSettings (applyOptimizedSettings freshSystem))
     \<noteq> previousSettings (applyOptimizedSettings freshSystem)
   \<and> map_option options (visualizer (snd (toggle False (snd (toggle True (snd (toggle True freshSystem)))))))
       \<noteq> map_option options (visualizer freshSystem)"
  by code_simp

text \<open>
  Claim C3, amended: \<^verbatim>\<open>applyOptimizedSettings\<close> does not look for an outstanding
  snapshot. Whenever a visualizer is attached it stores a snapshot of the bag's current
  values, replacing any earlier one, and \<^verbatim>\<open>restoreStandardSettings\<close> writes back the
  colour intensity, edge falloff and transition speed of that latest snapshot.
\<close>

theorem applyOptimizedSettings_snapshot_is_latest:
  assumes "visualizer s = Some v"
  shows "previousSettings (applyOptimizedSettings s) =
           Some \<lparr>ps_colorIntensity = colorIntensity (options v),
                 ps_edgeFalloff = edgeFalloff (options v),
                 ps_transitionSpeed = transitionSpeed (options v),
                 ps_visualizationMode = visualizationMode (options v)\<rparr>
         \<and> (\<exists>v'. visualizer (restoreStandardSettings (applyOptimizedSettings s)) = Some v'
               \<and> colorIntensity (options v') = colorIntensity (options v)
               \<and> edgeFalloff (options v') = edgeFalloff (options v)
               \<and> transitionSpeed (options v') = transitionSpeed (options v))"
  using assms
  by (auto simp add: restoreStandardSettings_def visualizer_applyOptimizedSettings Let_def
      previousSettings_applyOptimizedSettings previousVisualizationMode_applyOptimizedSettings)

theorem applyOptimizedSettings_snapshot_is_latest_witness:
  "visualizer appliedSystem = Some backlitVisualizer
   \<and> previousSettings (applyOptimizedSettings appliedSystem) =
       Some \<lparr>ps_colorIntensity = JNum (6 / 5), ps_edgeFalloff = JNum (7 / 10),
             ps_transitionSpeed = JStr ''medium'', ps_visualizationMode = JStr ''backlight''\<rparr>"
proof -
  have h: "visualizer appliedSystem = Some backlitVisualizer"
    by code_simp
  from applyOptimizedSettings_snapshot_is_latest [OF h] h show ?thesis
    by (simp add: backlitVisualizer_def spectrumOptions_def)
qed

subsection \<open>Claim C4\<close>

text \<open>
  Claim C4, as stated: with a snapshot outstanding \<^verbatim>\<open>restoreStandardSettings\<close> writes
  every snapshotted field back and clears the snapshot. It fails on both counts: the
  snapshot is still there after the call, and the snapshot's \<^verbatim>\<open>visualizationMode\<close>
  (here \<^verbatim>\<open>'backlight'\<close>) is not what is written to the bag (here \<^verbatim>\<open>'spectrum'\<close>, from
  \<^verbatim>\<open>previousVisualizationMode\<close>).
\<close>

theorem restore_keeps_snapshot:
  "previousSettings (restoreStandardSettings reappliedSystem) \<noteq> None
   \<and> map_option ps_visualizationMode (previousSettings reappliedSystem) = Some (JStr ''backlight'')
   \<and> map_option (\<lambda>v. visualizationMode (options v))
        (visualizer (restoreStandardSettings reappliedSystem)) = Some (JStr ''spectrum'')"
  by code_simp

text \<open>
  Claim C4, amended: with a visualizer and a snapshot, \<^verbatim>\<open>restoreStandardSettings\<close>
  writes the snapshot's colour intensity, edge falloff and transition speed back to the
  bag verbatim and leaves the snapshot in place; the visualization mode is written
  back from \<^verbatim>\<open>previousVisualizationMode\<close> when that is truthy, and that field is then set
  to \<^verbatim>\<open>null\<close>. Without a snapshot, or without a visualizer, the call returns at its
  first statement: nothing is changed and nothing can throw.
\<close>

theorem restoreStandardSettings_behaviour:
  "(visualizer s = Some v \<and> previousSettings s = Some p \<longrightarrow>
      previousSettings (restoreStandardSettings s) = Some p
      \<and> (\<exists>v'. visualizer (restoreStandardSettings s) = Some v'
            \<and> colorIntensity (options v') = ps_colorIntensity p
            \<and> edgeFalloff (options v') = ps_edgeFalloff p
            \<and> transitionSpeed (options v') = ps_transitionSpeed p
            \<and> (truthy (previousVisualizationMode s) \<longrightarrow>
                  visualizationMode (options v') = previousVisualizationMode s
                  \<and> previousVisualizationMode (restoreStandardSettings s) = JNull)))
   \<and> (visualizer s = None \<or> previousSettings s = None \<longrightarrow> restoreStandardSettings s = s)"
  by (auto simp add: restoreStandardSettings_def Let_def split: option.splits)

theorem restoreStandardSettings_behaviour_witness:
  "visualizer appliedSystem = Some backlitVisualizer
   \<and> previousSettings appliedSystem = Some spectrumSnapshot
   \<and> truthy (previousVisualizationMode appliedSystem)
   \<and> previousSettings (restoreStandardSettings appliedSystem) = Some spectrumSnapshot
   \<and> (\<exists>v'. visualizer (restoreStandardSettings appliedSystem) = Some v'
         \<and> colorIntensity (options v') = JNum 1
         \<and> edgeFalloff (options v') = JNum (1 / 2)
         \<and> transitionSpeed (options v') = JStr ''fast''
         \<and> visualizationMode (options v') = JStr ''spectrum'')
   \<and> previousVisualizationMode (restoreStandardSettings appliedSystem) = JNull
   \<and> previousSettings freshSystem = None
   \<and> restoreStandardSettings freshSystem = freshSystem"
proof -
  have v: "visualizer appliedSystem = Some backlitVisualizer"
    by code_simp
  have p: "previousSettings appliedSystem = Some spectrumSnapshot"
    by code_simp
  have m: "previousVisualizationMode appliedSystem = JStr ''spectrum''"
    by code_simp
  have n: "previousSettings freshSystem = None"
    by code_simp
  from restoreStandardSettings_behaviour [of appliedSystem backlitVisualizer spectrumSnapshot] v p m
  have a: "previousSettings (restoreStandardSettings appliedSystem) = Some spectrumSnapshot
   \<and> (\<exists>v'. visualizer (restoreStandardSettings appliedSystem) = Some v'
         \<and> colorIntensity (options v') = JNum 1
         \<and> edgeFalloff (options v') = JNum (1 / 2)
         \<and> transitionSpeed (options v') = JStr ''fast''
         \<and> visualizationMode (options v') = JStr ''spectrum'')
   \<and> previousVisualizationMode (restoreStandardSettings appliedSystem) = JNull"
    by (auto simp add: spectrumSnapshot_def)
  from restoreStandardSettings_behaviour [of freshSystem] n
  have b: "restoreStandardSettings freshSystem = freshSystem"
    by simp
  from a b n v p m show ?thesis by simp
qed

section \<open>Edge sampling and the frame hook\<close>

subsection \<open>The sampling loops keep the arrays' lengths\<close>

lemma length_sampleLoop: "length (sampleLoop pixelIndex d i zones) = length zones"
proof (induction pixelIndex d i zones rule: sampleLoop.induct)
  case (1 pixelIndex d i zones)
  show ?case
  proof (cases "i < length zones")
    case True
    with "1.IH" show ?thesis
      by (subst sampleLoop.simps) (simp add: Let_def)
  next
    case False
    then show ?thesis by (subst sampleLoop.simps) simp
  qed
qed

text \<open>
  A loop run from 0 writes every entry: what an array holds afterwards is the sample
  at each index, whatever it held before. On an empty buffer every read is
  \<^verbatim>\<open>undefined\<close>, so nothing in the loops retains a previous value.
\<close>

lemma sampleLoop_overwrites:
  "i \<le> length zones \<Longrightarrow>
   sampleLoop pixelIndex d i zones =
     take i zones @
     map (\<lambda>k. (readData d (pixelIndex (length zones) k),
               readData d (pixelIndex (length zones) k + 1),
               readData d (pixelIndex (length zones) k + 2))) [i..<length zones]"
proof (induction pixelIndex d i zones rule: sampleLoop.induct)
  case (1 pixelIndex d i zones)
  show ?case
  proof (cases "i < length zones")
    case True
    let ?v = "(readData d (pixelIndex (length zones) i),
               readData d (pixelIndex (length zones) i + 1),
               readData d (pixelIndex (length zones) i + 2))"
    have step: "sampleLoop pixelIndex d i zones = sampleLoop pixelIndex d (Suc i) (zones[i := ?v])"
      using True by (subst sampleLoop.simps) (simp add: Let_def)
    have "take (Suc i) (zones[i := ?v]) = take i zones @ [?v]"
      using True by (simp add: take_Suc_conv_app_nth)
    moreover have "[i..<length zones] = i # [Suc i..<length zones]"
      using True by (simp add: upt_conv_Cons)
    ultimately show ?thesis
      using "1.IH" [OF True refl] True by (simp add: step)
  next
    case False
    with "1.prems" have "i = length zones" by simp
    then show ?thesis by (subst sampleLoop.simps) simp
  qed
qed

lemma sampleLoop_empty_buffer:
  "sampleLoop pixelIndex [] 0 zones = replicate (length zones) (None, None, None)"
  by (simp add: sampleLoop_overwrites readData_def map_replicate_const)

lemma zoneLengths_sampleEdgeColors:
  "zoneLengths (leftBehind (sampleEdgeColors fl ctx width height s)) = zoneLengths s"
  by (simp add: sampleEdgeColors_def zoneLengths_def Let_def length_sampleLoop
      split: sum.splits)

lemma sampleEdgeColors_returns:
  "0 < width \<Longrightarrow> 0 < height \<Longrightarrow> \<exists>s'. sampleEdgeColors fl ctx width height s = Returned s'"
  by (simp add: sampleEdgeColors_def getImageData_def Let_def)

lemma sampleEdgeColors_degenerate:
  "width = 0 \<or> height = 0 \<Longrightarrow> sampleEdgeColors fl ctx width height s = Threw IndexSizeError s"
  by (auto simp add: sampleEdgeColors_def getImageData_def)

lemma edgeZones_toggle: "edgeZones (snd (toggle e s)) = edgeZones s"
  by (simp add: toggle_def Let_def edgeZones_applyOptimizedSettings edgeZones_restoreStandardSettings)

lemma edgeZones_connectToSystem: "edgeZones (connectToSystem system s) = edgeZones s"
  by (simp add: connectToSystem_def)

lemma edgeZones_scanTimerFired: "edgeZones (scanTimerFired s) = edgeZones s"
  by (simp add: scanTimerFired_def discovered_def edgeZones_connectToSystem)

lemma edgeZones_setMode: "edgeZones (setMode fl mode s) = edgeZones s"
  by (simp add: setMode_def Let_def attemptDirectConnection_def scanForBacklightSystems_def)

lemma zoneLengths_processFrame:
  "zoneLengths (fst (leftBehind (processFrame fl ctx width height s))) = zoneLengths s"
proof (cases "sampleEdgeColors fl ctx width height s")
  case (Returned s1)
  with zoneLengths_sampleEdgeColors [of fl ctx width height s]
  have "zoneLengths s1 = zoneLengths s" by simp
  with Returned show ?thesis
    by (simp add: processFrame_def split: sum.splits outcome.splits)
next
  case (Threw e s1)
  with zoneLengths_sampleEdgeColors [of fl ctx width height s]
  have "zoneLengths s1 = zoneLengths s" by simp
  with Threw show ?thesis
    by (simp add: processFrame_def)
qed

text \<open>
  On a frame smaller than the inset the top zones are read outside the buffer, their
  aggregate is not a number, and the first \<^verbatim>\<open>addColorStop\<close> of the edge emphasis
  throws before anything is drawn.
\<close>

lemma emphasis_below_inset_throws:
  "(case processFrame exact tinyCanvas 2 2 appliedSystem of
      Returned x \<Rightarrow> False
    | Threw e (s, ctx, sent) \<Rightarrow> e = SyntaxError \<and> drawn ctx = [])"
  by code_simp

subsection \<open>Claim C7\<close>

text \<open>
  Claim C7, as stated: on a frame of width 0 or height 0 the edge sampling raises no
  error and short-circuits. It fails: \<^verbatim>\<open>sampleEdgeColors\<close> has no test of the size, its
  first statement asks the canvas for a \<open>0 \<times> 4\<close> (or \<open>4 \<times> 0\<close>) image, and that call
  throws.
\<close>

theorem degenerate_frame_raises:
  "sampleEdgeColors exact blackCanvas 0 4 freshSystem = Threw IndexSizeError freshSystem
   \<and> sampleEdgeColors exact blackCanvas 4 0 freshSystem = Threw IndexSizeError freshSystem"
  by (simp add: sampleEdgeColors_def getImageData_def)

text \<open>
  Claim C7, amended: on a frame of width 0 or height 0 the edge sampling does not
  short-circuit; its call of \<^verbatim>\<open>getImageData\<close> throws \<^verbatim>\<open>IndexSizeError\<close>, which
  leaves \<^verbatim>\<open>sampleEdgeColors\<close> and, when the system is enabled, \<^verbatim>\<open>processFrame\<close>.
  The throw comes before any write, so the system, and with it every entry of the
  four zone arrays, is as it was before the call.
\<close>

theorem sampleEdgeColors_degenerate_throws:
  assumes "width = 0 \<or> height = 0"
  shows "sampleEdgeColors fl ctx width height s = Threw IndexSizeError s
         \<and> (isEnabled s \<longrightarrow>
              processFrame fl ctx width height s = Threw IndexSizeError (s, ctx, []))"
  using sampleEdgeColors_degenerate [OF assms]
  by (simp add: processFrame_def)

theorem sampleEdgeColors_degenerate_throws_witness:
  "isEnabled appliedSystem
   \<and> sampleEdgeColors exact blackCanvas 0 4 appliedSystem = Threw IndexSizeError appliedSystem
   \<and> processFrame exact blackCanvas 0 4 appliedSystem
       = Threw IndexSizeError (appliedSystem, blackCanvas, [])"
proof -
  have d: "(0::nat) = 0 \<or> (4::nat) = 0" by simp
  have e: "isEnabled appliedSystem" by code_simp
  from sampleEdgeColors_degenerate_throws [OF d, of exact blackCanvas appliedSystem] e
  show ?thesis by simp
qed

subsection \<open>Claim C9\<close>

text \<open>
  Claim C9: the lengths of the four zone arrays are fixed at initialization (16 for
  top and bottom, 9 for left and right) and every later operation of the controller
  keeps them; in particular the edge sampling keeps them for every frame size, and
  for a frame of at least 3 by 3 pixels (the inset) it returns normally with the
  lengths unchanged. \<open>leftBehind\<close> covers the call that returns and the one that throws.
\<close>

theorem edge_zone_lengths_invariant:
  "zoneLengths (BacklightSystem fl vis) = (16, 9, 16, 9)
   \<and> zoneLengths (initializeEdgeZones s) = (16, 9, 16, 9)
   \<and> zoneLengths (snd (toggle e s)) = zoneLengths s
   \<and> zoneLengths (setMode fl mode s) = zoneLengths s
   \<and> zoneLengths (applyOptimizedSettings s) = zoneLengths s
   \<and> zoneLengths (restoreStandardSettings s) = zoneLengths s
   \<and> zoneLengths (connectToSystem system s) = zoneLengths s
   \<and> zoneLengths (scanTimerFired s) = zoneLengths s
   \<and> zoneLengths (leftBehind (sampleEdgeColors fl ctx width height s)) = zoneLengths s
   \<and> zoneLengths (fst (leftBehind (processFrame fl ctx width height s))) = zoneLengths s
   \<and> (3 \<le> width \<and> 3 \<le> height \<longrightarrow>
        (\<exists>s'. sampleEdgeColors fl ctx width height s = Returned s'
               \<and> zoneLengths s' = zoneLengths s))"
proof -
  have init: "zoneLengths (BacklightSystem fl vis) = (16, 9, 16, 9)"
    "zoneLengths (initializeEdgeZones s) = (16, 9, 16, 9)"
    by (simp_all add: BacklightSystem_def initializeEdgeZones_def zoneLengths_def)
  have ret: "\<exists>s'. sampleEdgeColors fl ctx width height s = Returned s'
               \<and> zoneLengths s' = zoneLengths s" if "3 \<le> width" "3 \<le> height"
  proof -
    from that obtain s' where s': "sampleEdgeColors fl ctx width height s = Returned s'"
      using sampleEdgeColors_returns [of width height fl ctx s] by auto
    with zoneLengths_sampleEdgeColors [of fl ctx width height s] show ?thesis by simp
  qed
  have ops: "zoneLengths (snd (toggle e s)) = zoneLengths s"
    "zoneLengths (setMode fl mode s) = zoneLengths s"
    "zoneLengths (applyOptimizedSettings s) = zoneLengths s"
    "zoneLengths (restoreStandardSettings s) = zoneLengths s"
    "zoneLengths (connectToSystem system s) = zoneLengths s"
    "zoneLengths (scanTimerFired s) = zoneLengths s"
    by (simp_all add: zoneLengths_def edgeZones_toggle edgeZones_setMode
        edgeZones_applyOptimizedSettings edgeZones_restoreStandardSettings
        edgeZones_connectToSystem edgeZones_scanTimerFired)
  from init ops ret zoneLengths_sampleEdgeColors [of fl ctx width height s]
    zoneLengths_processFrame [of fl ctx width height s]
  show ?thesis by blast
qed

theorem edge_zone_lengths_invariant_witness:
  "zoneLengths freshSystem = (16, 9, 16, 9)
   \<and> (\<exists>s'. sampleEdgeColors exact blackCanvas 4 3 appliedSystem = Returned s'
            \<and> zoneLengths s' = (16, 9, 16, 9))"
proof -
  have a: "zoneLengths appliedSystem = zoneLengths freshSystem"
    using edge_zone_lengths_invariant [where e = True and s = freshSystem]
    by (simp add: appliedSystem_def)
  have b: "zoneLengths freshSystem = (16, 9, 16, 9)"
    using edge_zone_lengths_invariant [where fl = exact and vis = "Some spectrumVisualizer"]
    by (simp add: freshSystem_def)
  have "(3::nat) \<le> 4 \<and> (3::nat) \<le> 3" by simp
  with edge_zone_lengths_invariant
    [where fl = exact and s = appliedSystem and ctx = blackCanvas and width = 4 and height = 3]
  have "\<exists>s'. sampleEdgeColors exact blackCanvas 4 3 appliedSystem = Returned s'
            \<and> zoneLengths s' = zoneLengths appliedSystem"
    by blast
  with a b show ?thesis by simp
qed

subsection \<open>Claim C10\<close>

text \<open>
  Claim C10: while \<^verbatim>\<open>isEnabled\<close> is false, \<^verbatim>\<open>processFrame\<close> returns at once, in
  every mode: the system (its zone arrays included) and the canvas context are
  unchanged, nothing is drawn and nothing is dispatched. This is the state that
  \<^verbatim>\<open>toggle(false)\<close> leaves.
\<close>

theorem processFrame_disabled_noop:
  "(\<not> isEnabled s \<longrightarrow> processFrame fl ctx width height s = Returned (s, ctx, []))
   \<and> processFrame fl ctx width height (snd (toggle False s))
       = Returned (snd (toggle False s), ctx, [])"
  by (simp add: processFrame_def toggle_def Let_def isEnabled_restoreStandardSettings)

theorem processFrame_disabled_noop_witness:
  "\<not> isEnabled freshSystem
   \<and> processFrame exact blackCanvas 4 4 freshSystem = Returned (freshSystem, blackCanvas, [])
   \<and> \<not> isEnabled (freshSystem\<lparr>backlightMode := ''direct''\<rparr>)
   \<and> processFrame exact blackCanvas 4 4 (freshSystem\<lparr>backlightMode := ''direct''\<rparr>)
       = Returned (freshSystem\<lparr>backlightMode := ''direct''\<rparr>, blackCanvas, [])"
proof -
  have a: "\<not> isEnabled freshSystem" by code_simp
  have b: "\<not> isEnabled (freshSystem\<lparr>backlightMode := ''direct''\<rparr>)" by code_simp
  from processFrame_disabled_noop [of freshSystem exact blackCanvas 4 4] a
    processFrame_disabled_noop [of "freshSystem\<lparr>backlightMode := ''direct''\<rparr>" exact blackCanvas 4 4] b
  show ?thesis by simp
qed

section \<open>Aggregation and dispatch\<close>

subsection \<open>Totals, averages and saturated channels of byte-valued zones\<close>

lemma sumColors_byteZones:
  assumes "\<forall>x. 0 \<le> x \<longrightarrow> 0 \<le> fl x"
    and "list_all byteZone colors" and "0 \<le> a" and "0 \<le> b" and "0 \<le> c"
  shows "\<exists>a' b' c'. sumColors fl colors (JNum a, JNum b, JNum c) = (JNum a', JNum b', JNum c')
           \<and> 0 \<le> a' \<and> 0 \<le> b' \<and> 0 \<le> c'"
  using assms(2-)
proof (induction colors arbitrary: a b c)
  case Nil
  then show ?case by simp
next
  case (Cons z colors)
  from Cons.prems(1) obtain r g bl where z: "z = (Some r, Some g, Some bl)"
    by (cases z rule: byteZone.cases) auto
  have "0 \<le> fl (a + of_nat r)" "0 \<le> fl (b + of_nat g)" "0 \<le> fl (c + of_nat bl)"
    using Cons.prems assms(1) by simp_all
  with Cons.IH [of "fl (a + of_nat r)" "fl (b + of_nat g)" "fl (c + of_nat bl)"] Cons.prems(1)
  show ?case by (simp add: z)
qed

lemma averageChannel_nonneg:
  assumes "\<forall>x. 0 \<le> x \<longrightarrow> 0 \<le> fl x" and "0 \<le> t" and "0 < n"
  shows "\<exists>a. averageChannel fl (JNum t) n = JNum a \<and> 0 \<le> a"
  using assms by simp

lemma saturateChannel_byteValued:
  assumes "\<forall>x. 0 \<le> x \<longrightarrow> 0 \<le> fl x" and "0 \<le> a" and "0 \<le> sat"
  shows "byteValued (saturateChannel fl sat (JNum a))"
  using assms by simp

subsection \<open>Claim C8\<close>

text \<open>
  Claim C8: for every non-empty zone sequence whose entries are byte-valued RGB triples
  and every saturation factor between 0.5 and 1.5, each channel of the averaged and
  saturated colour is a number between 0 and 255. The rounding \<open>fl\<close> of the floating
  point arithmetic is only required to keep non-negative values non-negative, which
  rounding to nearest does.
\<close>

theorem aggregate_channels_in_byte_range:
  assumes fl: "\<forall>x. 0 \<le> x \<longrightarrow> 0 \<le> fl x"
    and ne: "colorArray \<noteq> []"
    and bytes: "list_all byteZone colorArray"
    and lo: "1 / 2 \<le> bl_colorSaturation s" and hi: "bl_colorSaturation s \<le> 3 / 2"
  shows "\<exists>r g b. getAverageColorString fl colorArray alpha s = Rgba r g b alpha
           \<and> byteValued r \<and> byteValued g \<and> byteValued b"
proof -
  obtain tr tg tb where
    sum: "sumColors fl colorArray (JNum 0, JNum 0, JNum 0) = (JNum tr, JNum tg, JNum tb)"
    and pos: "0 \<le> tr" "0 \<le> tg" "0 \<le> tb"
    using sumColors_byteZones [OF fl bytes, where a = 0 and b = 0 and c = 0] by auto
  from ne have n: "0 < length colorArray" by simp
  obtain ar where ar: "averageChannel fl (JNum tr) (length colorArray) = JNum ar" "0 \<le> ar"
    using averageChannel_nonneg [OF fl pos(1) n] by auto
  obtain ag where ag: "averageChannel fl (JNum tg) (length colorArray) = JNum ag" "0 \<le> ag"
    using averageChannel_nonneg [OF fl pos(2) n] by auto
  obtain ab where ab: "averageChannel fl (JNum tb) (length colorArray) = JNum ab" "0 \<le> ab"
    using averageChannel_nonneg [OF fl pos(3) n] by auto
  from lo have sat: "0 \<le> bl_colorSaturation s" by simp
  have "byteValued (saturateChannel fl (bl_colorSaturation s) (JNum ar))"
    "byteValued (saturateChannel fl (bl_colorSaturation s) (JNum ag))"
    "byteValued (saturateChannel fl (bl_colorSaturation s) (JNum ab))"
    using saturateChannel_byteValued [OF fl _ sat] ar(2) ag(2) ab(2) by blast+
  then show ?thesis
    unfolding getAverageColorString_def by (simp only: sum ar ag ab Let_def prod.case) blast
qed

theorem aggregate_channels_in_byte_range_witness:
  "list_all byteZone [(Some 255, Some 0, Some 10), (Some 255, Some 128, Some 11)]
   \<and> bl_colorSaturation (setMode exact ''ambilight'' freshSystem) = 7 / 5
   \<and> (\<exists>r g b. getAverageColorString exact
                  [(Some 255, Some 0, Some 10), (Some 255, Some 128, Some 11)] 1
                  (setMode exact ''ambilight'' freshSystem) = Rgba r g b 1
          \<and> byteValued r \<and> byteValued g \<and> byteValued b)"
proof -
  have fl: "\<forall>x. 0 \<le> x \<longrightarrow> 0 \<le> exact x" by (simp add: exact_def)
  have ne: "[(Some 255, Some 0, Some 10), (Some 255, Some 128, Some (11::nat))]
              \<noteq> ([] :: zone list)" by simp
  have bytes: "list_all byteZone [(Some 255, Some 0, Some 10), (Some 255, Some 128, Some 11)]"
    by simp
  have sat: "bl_colorSaturation (setMode exact ''ambilight'' freshSystem) = 7 / 5"
    by (simp add: setMode_def exact_def)
  have lo: "1 / 2 \<le> bl_colorSaturation (setMode exact ''ambilight'' freshSystem)"
    and hi: "bl_colorSaturation (setMode exact ''ambilight'' freshSystem) \<le> 3 / 2"
    by (simp_all add: sat)
  from aggregate_channels_in_byte_range [OF fl ne bytes lo hi, of 1] bytes sat
  show ?thesis by simp
qed

subsection \<open>What the dispatch loop builds\<close>

lemma formatDataForGovee_nonempty:
  assumes "top (edgeZones s) \<noteq> []"
  shows "\<exists>g. formatDataForGovee s = Inr g
           \<and> (value_r g, value_g g, value_b g)
               = top (edgeZones s) ! (length (top (edgeZones s)) div 2)"
proof -
  from assms have "length (top (edgeZones s)) div 2 < length (top (edgeZones s))" by simp
  then show ?thesis
    by (simp add: formatDataForGovee_def Let_def split: prod.splits)
qed

lemma sendEach_dispatchOf:
  assumes "formatDataForGovee s = Inr g"
  shows "sendEach systems s = Inr (concat (map (dispatchOf g) systems))"
  by (induction systems) (simp_all add: assms sendToGovee_def sendToPhilipsHue_def
      sendToWLED_def dispatchOf_def)

subsection \<open>Claim C5\<close>

text \<open>
  Claim C5, as stated: in direct mode every connected record's payload is built from the
  aggregate (average and saturate) of the edge zones. It fails: on a frame whose top
  edge is orange in four of its sixteen zones, the middle one among them, the payload
  built for Govee carries the middle zone's raw sample (200, 100, 50), while the
  aggregate of the top edge is (60, 30, 14).
\<close>

theorem govee_payload_is_not_aggregate:
  "isEnabled directSystem
   \<and> backlightMode directSystem = ''direct''
   \<and> snd (snd (leftBehind (processFrame exact orangeCanvas 4 4 directSystem)))
       = [GoveePayload \<lparr>device = ''H6199'', model = ''H6199'', cmd_name = ''color'',
                value_r = Some 200, value_g = Some 100, value_b = Some 50\<rparr>]
   \<and> getAverageColorString exact (top (edgeZones goveeSystem)) 1 goveeSystem
       = Rgba (JNum 60) (JNum 30) (JNum 14) 1"
  by code_simp

text \<open>
  Claim C5, amended: the per-frame dispatch passes no aggregate to any vendor. For a
  connected Govee record the payload's colour is the raw sample of the single top zone
  at index \<open>\<lfloor>length / 2\<rfloor>\<close>, neither averaged nor saturated; for Philips Hue and WLED
  no payload is built (a console line only), and any other record is skipped.
\<close>

theorem govee_payload_is_middle_top_sample:
  assumes "top (edgeZones s) \<noteq> []"
  shows "\<exists>g. formatDataForGovee s = Inr g
           \<and> (value_r g, value_g g, value_b g)
               = top (edgeZones s) ! (length (top (edgeZones s)) div 2)
           \<and> sendColorDataToConnectedSystems s
               = Inr (concat (map (dispatchOf g) (filter connected (supportedSystems s))))"
  using formatDataForGovee_nonempty [OF assms]
  by (auto simp add: sendColorDataToConnectedSystems_def Let_def sendEach_dispatchOf)

theorem govee_payload_is_middle_top_sample_witness:
  "top (edgeZones goveeSystem) \<noteq> []
   \<and> top (edgeZones goveeSystem) ! (length (top (edgeZones goveeSystem)) div 2)
       = (Some 200, Some 100, Some 50)
   \<and> (\<exists>g. formatDataForGovee goveeSystem = Inr g
          \<and> (value_r g, value_g g, value_b g) = (Some 200, Some 100, Some 50)
          \<and> sendColorDataToConnectedSystems goveeSystem
              = Inr (concat (map (dispatchOf g) (filter connected (supportedSystems goveeSystem)))))"
proof -
  have ne: "top (edgeZones goveeSystem) \<noteq> []" by code_simp
  have mid: "top (edgeZones goveeSystem) ! (length (top (edgeZones goveeSystem)) div 2)
       = (Some 200, Some 100, Some 50)" by code_simp
  from govee_payload_is_middle_top_sample [OF ne] ne mid show ?thesis
    by simp
qed

section \<open>The recording session\<close>

subsection \<open>startRecording with a canvas, and the settled stopRecording\<close>

lemma startRecording_canvas:
  "startRecording fl (Some c) audioContext s =
     (True, (snd (enable fl s))
        \<lparr>replaced := (case recorder s of None \<Rightarrow> replaced s | Some old \<Rightarrow> replaced s @ [old]),
         recorder := Some (recorderStart (newMediaRecorder
              (case audioContext of
                 None \<Rightarrow> captureStream c 60
               | Some a \<Rightarrow> (case destination_stream a of
                              None \<Rightarrow> captureStream c 60
                            | Some audioTracks \<Rightarrow> captureStream c 60 @ audioTracks))
              ''video/webm;codecs=vp9'' 8000000)),
         recordedChunks := []\<rparr>)"
  by (cases "ro_visualizer s"; cases "recorder s")
     (simp_all add: startRecording_def enable_def Let_def)

lemma replacedTasksRun_none_queued:
  "list_all (\<lambda>r. \<not> stopTaskQueued r) rs \<Longrightarrow> replacedTasksRun sizes rs s = s"
  by (induction rs arbitrary: sizes s) simp_all

lemma stopRecordingSettled_recording:
  assumes "recorder s = Some r" and "state r = Recording"
    and "list_all (\<lambda>r. \<not> stopTaskQueued r) (replaced s)"
  shows "stopRecordingSettled earlier bytes s =
           onstop (ondataavailable bytes
             (s\<lparr>replaced := map (\<lambda>r. r\<lparr>stopTaskQueued := False\<rparr>) (replaced s),
                recorder := Some (r\<lparr>onstopInstalled := True, state := Inactive,
                                   stopTaskQueued := False\<rparr>)\<rparr>))"
  using assms
  by (simp add: stopRecordingSettled_def stopRecording_def recorderStop_def stopTaskRuns_def
      stopTaskOf_def earlierStopTasksRun_def replacedTasksRun_none_queued Let_def)

lemma noSessionInProgress_started:
  assumes "noSessionInProgress s"
  shows "list_all (\<lambda>r. \<not> stopTaskQueued r)
           (replaced (snd (startRecording fl (Some c) audioContext s)))"
proof -
  from assms have "list_all (\<lambda>r. \<not> stopTaskQueued r) (replaced s)"
    by (auto simp add: noSessionInProgress_def settledRecorder_def list_all_iff)
  moreover from assms have "\<not> stopTaskQueued old" if "recorder s = Some old" for old
    using that by (simp add: noSessionInProgress_def settledRecorder_def)
  ultimately show ?thesis
    by (cases "recorder s") (simp_all add: startRecording_canvas)
qed

lemma session_settles:
  fixes fl c audioContext earlier bytes s
  defines "started \<equiv> snd (startRecording fl (Some c) audioContext s)"
  defines "settled \<equiv> stopRecordingSettled earlier bytes started"
  assumes alt: "noSessionInProgress s"
  shows "fst settled = Resolved \<lparr>parts = (if bytes > 0 then [bytes] else []), blob_type = ''video/webm''\<rparr>
       \<and> disableCalls started = disableCalls s
       \<and> disableCalls (snd settled) = Suc (disableCalls started)
       \<and> ro_visualizer (snd settled) = ro_visualizer s
       \<and> originalSettings (snd settled) =
           (case ro_visualizer s of
              None \<Rightarrow> originalSettings s
            | Some v \<Rightarrow> Some \<lparr>os_colorSaturation = colorSaturation (options v),
                              os_visualizationMode = visualizationMode (options v),
                              os_edgeEmphasis = edgeEmphasis (options v)\<rparr>)"
proof -
  obtain r where r: "recorder started = Some r" "state r = Recording"
    by (simp add: started_def startRecording_canvas recorderStart_def)
  have q: "list_all (\<lambda>r. \<not> stopTaskQueued r) (replaced started)"
    unfolding started_def by (rule noSessionInProgress_started [OF alt])
  show ?thesis
    unfolding settled_def stopRecordingSettled_recording [OF r q]
    by (cases "ro_visualizer s"; cases "originalSettings s")
       (simp_all add: started_def startRecording_canvas onstop_def disable_def enable_def
         ondataavailable_def Let_def)
qed

subsection \<open>Claim C1\<close>

text \<open>
  Claim C1, as stated: for a correctly alternating pair, when the promise of
  \<^verbatim>\<open>stopRecording\<close> resolves, \<^verbatim>\<open>disable()\<close> has been called once,
  \<^verbatim>\<open>originalSettings\<close> has been cleared and the three options are back at their
  values. The middle part fails, on the first session of a new optimizer:
  \<^verbatim>\<open>disable()\<close> never assigns \<^verbatim>\<open>originalSettings\<close>, which still holds the saved
  values after the promise resolved.
\<close>

theorem stopRecording_leaves_originalSettings_set:
  "noSessionInProgress freshOptimizer
   \<and> fst (stopRecordingSettled [] 10
          (snd (startRecording exact (Some HtmlCanvas) None freshOptimizer)))
       = Resolved \<lparr>parts = [10], blob_type = ''video/webm''\<rparr>
   \<and> originalSettings (snd (stopRecordingSettled [] 10
        (snd (startRecording exact (Some HtmlCanvas) None freshOptimizer)))) \<noteq> None"
  by code_simp

text \<open>
  The qualification is needed for the count of calls. When \<^verbatim>\<open>startRecording\<close> is called
  while the task of an earlier \<^verbatim>\<open>stopRecording\<close> is still queued, the recorder it
  replaces fires its \<^verbatim>\<open>stop\<close> event all the same, and by the time the second promise
  resolves \<^verbatim>\<open>disable()\<close> has run twice since the second \<^verbatim>\<open>startRecording\<close>.
\<close>

lemma unawaited_stop_disables_twice:
  "\<not> noSessionInProgress pendingOptimizer
   \<and> disableCalls (snd (startRecording exact (Some HtmlCanvas) None pendingOptimizer)) = 0
   \<and> disableCalls (snd (stopRecordingSettled [5] 10
        (snd (startRecording exact (Some HtmlCanvas) None pendingOptimizer)))) = 2"
  by code_simp

text \<open>
  Claim C1, amended: for any correctly alternating \<^verbatim>\<open>startRecording\<close> /
  \<^verbatim>\<open>stopRecording\<close> pair (\<^verbatim>\<open>startRecording\<close> is given a canvas, and no earlier session
  is in progress or has its stop task still queued when it is called), when the promise
  returned by \<^verbatim>\<open>stopRecording\<close> resolves, \<^verbatim>\<open>disable()\<close> has been called exactly once
  since the matching \<^verbatim>\<open>startRecording\<close>, the visualizer's options equal their values
  from immediately before \<^verbatim>\<open>startRecording\<close>, and \<^verbatim>\<open>originalSettings\<close> is not
  cleared: it still holds the values that \<^verbatim>\<open>startRecording\<close> saved (without a
  visualizer it is untouched).
\<close>

theorem stopRecording_restores_and_keeps_originalSettings:
  assumes "noSessionInProgress s"
  shows "(let started = snd (startRecording fl (Some c) audioContext s);
              settled = stopRecordingSettled earlier bytes started
          in fst (startRecording fl (Some c) audioContext s) = True
             \<and> fst settled = Resolved \<lparr>parts = (if bytes > 0 then [bytes] else []),
                                        blob_type = ''video/webm''\<rparr>
             \<and> disableCalls started = disableCalls s
             \<and> disableCalls (snd settled) = Suc (disableCalls started)
             \<and> ro_visualizer (snd settled) = ro_visualizer s
             \<and> originalSettings (snd settled) =
                 (case ro_visualizer s of
                    None \<Rightarrow> originalSettings s
                  | Some v \<Rightarrow> Some \<lparr>os_colorSaturation = colorSaturation (options v),
                                    os_visualizationMode = visualizationMode (options v),
                                    os_edgeEmphasis = edgeEmphasis (options v)\<rparr>))"
  using session_settles [OF assms, of earlier bytes fl c audioContext]
  by (simp add: Let_def startRecording_canvas)

theorem stopRecording_restores_and_keeps_originalSettings_witness:
  "noSessionInProgress restedOptimizer
   \<and> recorder restedOptimizer \<noteq> None
   \<and> ro_visualizer restedOptimizer = Some spectrumVisualizer
   \<and> disableCalls restedOptimizer = 1
   \<and> ro_visualizer (snd (stopRecordingSettled [] 7
        (snd (startRecording exact (Some HtmlCanvas) None restedOptimizer)))) = Some spectrumVisualizer
   \<and> disableCalls (snd (stopRecordingSettled [] 7
        (snd (startRecording exact (Some HtmlCanvas) None restedOptimizer)))) = 2
   \<and> originalSettings (snd (stopRecordingSettled [] 7
        (snd (startRecording exact (Some HtmlCanvas) None restedOptimizer)))) =
       Some \<lparr>os_colorSaturation = JNum 1, os_visualizationMode = JStr ''spectrum'',
             os_edgeEmphasis = JNum (1 / 2)\<rparr>"
proof -
  have a: "noSessionInProgress restedOptimizer"
    and r: "recorder restedOptimizer \<noteq> None"
    and v: "ro_visualizer restedOptimizer = Some spectrumVisualizer"
    and n: "disableCalls restedOptimizer = 1"
    by code_simp+
  from stopRecording_restores_and_keeps_originalSettings
         [OF a, of exact HtmlCanvas None "[]" 7] a r v n
  show ?thesis
    by (simp add: Let_def spectrumVisualizer_def spectrumOptions_def)
qed

subsection \<open>Claim C6\<close>

text \<open>
  Claim C6, as stated: \<^verbatim>\<open>startRecording\<close> during an active session is rejected and
  changes nothing. It fails: the call returns \<^verbatim>\<open>true\<close>, overwrites
  \<^verbatim>\<open>originalSettings\<close> and empties \<^verbatim>\<open>recordedChunks\<close>.
\<close>

theorem startRecording_while_active_not_rejected:
  "map_option state (recorder activeOptimizer) = Some Recording
   \<and> fst (startRecording exact (Some HtmlCanvas) None activeOptimizer) = True
   \<and> originalSettings (snd (startRecording exact (Some HtmlCanvas) None activeOptimizer))
       \<noteq> originalSettings activeOptimizer
   \<and> recordedChunks (snd (startRecording exact (Some HtmlCanvas) None activeOptimizer))
       \<noteq> recordedChunks activeOptimizer"
  by code_simp

text \<open>
  Claim C6, amended: \<^verbatim>\<open>startRecording\<close> has no test for a session in progress. With a
  canvas, and a recorder already recording, it returns \<^verbatim>\<open>true\<close>, runs \<^verbatim>\<open>enable()\<close>
  again, so that with a visualizer attached \<^verbatim>\<open>originalSettings\<close> is overwritten by the
  bag's current (already optimized) values, empties \<^verbatim>\<open>recordedChunks\<close>, and replaces
  the active recorder by a new one that is recording and has no stop handler.
\<close>

theorem startRecording_while_active_restarts:
  assumes "recorder s = Some r" and "state r = Recording"
  shows "\<exists>s' r'. startRecording fl (Some c) audioContext s = (True, s')
           \<and> originalSettings s' =
               (case ro_visualizer s of
                  None \<Rightarrow> originalSettings s
                | Some v \<Rightarrow> Some \<lparr>os_colorSaturation = colorSaturation (options v),
                                  os_visualizationMode = visualizationMode (options v),
                                  os_edgeEmphasis = edgeEmphasis (options v)\<rparr>)
           \<and> recordedChunks s' = []
           \<and> recorder s' = Some r' \<and> state r' = Recording
           \<and> \<not> onstopInstalled r' \<and> \<not> stopTaskQueued r'"
  by (cases "ro_visualizer s")
     (simp_all add: startRecording_canvas enable_def recorderStart_def newMediaRecorder_def)

theorem startRecording_while_active_restarts_witness:
  "map_option state (recorder activeOptimizer) = Some Recording
   \<and> (\<exists>s'. startRecording exact (Some HtmlCanvas) None activeOptimizer = (True, s')
         \<and> originalSettings s' =
             Some \<lparr>os_colorSaturation = JNum (13 / 10), os_visualizationMode = JStr ''backlight'',
                   os_edgeEmphasis = JNum (9 / 10)\<rparr>
         \<and> recordedChunks s' = [])"
proof -
  have r: "recorder activeOptimizer =
      Some \<lparr>stream = [CanvasTrack 60], mimeType = ''video/webm;codecs=vp9'',
            videoBitsPerSecond = 8000000, state = Recording,
            onstopInstalled = False, stopTaskQueued = False\<rparr>"
    by code_simp
  have st: "state \<lparr>stream = [CanvasTrack 60], mimeType = ''video/webm;codecs=vp9'',
            videoBitsPerSecond = 8000000, state = Recording,
            onstopInstalled = False, stopTaskQueued = False\<rparr> = Recording"
    by simp
  have v: "ro_visualizer activeOptimizer =
      Some \<lparr>options = spectrumOptions\<lparr>colorSaturation := JNum (13 / 10),
               visualizationMode := JStr ''backlight'', edgeEmphasis := JNum (9 / 10)\<rparr>\<rparr>"
    by code_simp
  from startRecording_while_active_restarts [OF r st, of exact HtmlCanvas None] r v
  show ?thesis
    by (auto simp add: spectrumOptions_def)
qed

end
